theory Spec2Isabelle
  imports Main
begin

section \<open>Values\<close>

text \<open>
  The repository is one module, \<^verbatim>\<open>app/models.py\<close>: enumerations, nine table classes and
  seventeen request shapes, all declared with \<^verbatim>\<open>Field(...)\<close>. A class declaration is
  modelled as the list of its field declarations, in source order; what a declaration
  does (the checks run when a shape is constructed, the uniqueness a table column
  carries) is given once, for any such list.

  A Python \<^verbatim>\<open>Decimal\<close> is the triple of \<^verbatim>\<open>as_tuple()\<close>: sign, coefficient digits and
  exponent, so \<^verbatim>\<open>Decimal("10.005")\<close> is \<open>Decimal False [1,0,0,0,5] (-3)\<close>. Only finite
  decimals are modelled. A \<^verbatim>\<open>datetime\<close> is a point on an integer time line. A \<^verbatim>\<open>str\<close> is
  a list of characters.
\<close>

datatype decimal = Decimal (dsign: bool) (ddigits: "nat list") (dexponent: int)

datatype pyval =
    PyNone
  | PyStr string
  | PyInt int
  | PyBool bool
  | PyDecimal decimal
  | PyDatetime int
  | PyList "string list"

text \<open>The annotation of a field. An enumeration is the list of its literal values.\<close>

datatype ftype =
    T_str
  | T_int
  | T_bool
  | T_Decimal
  | T_datetime
  | T_List_str
  | T_Enum "string list"

subsection \<open>Enums\<close>

definition UserRole :: "string list" where
  "UserRole = [''seeker'', ''provider'', ''admin'']"

definition UserStatus :: "string list" where
  "UserStatus = [''active'', ''inactive'', ''suspended'']"

definition ServiceType :: "string list" where
  "ServiceType = [''badal_haji'', ''badal_umrah'']"

definition BookingStatus :: "string list" where
  "BookingStatus = [''pending'', ''confirmed'', ''in_progress'', ''completed'', ''cancelled'']"

definition PaymentStatus :: "string list" where
  "PaymentStatus = [''pending'', ''paid'', ''refunded'']"

definition NotificationStatus :: "string list" where
  "NotificationStatus = [''unread'', ''read'']"

definition BlogStatus :: "string list" where
  "BlogStatus = [''draft'', ''published'', ''archived'']"

section \<open>Regular expressions\<close>

text \<open>
  The one pattern of the module is a sequence of character classes, each taken once or
  one or more times, anchored at both ends. \<open>regex_match\<close> decides whether the whole
  string is in the pattern's language.
\<close>

datatype rx = One "char list" | OneOrMore "char list"

fun regex_match :: "rx list \<Rightarrow> string \<Rightarrow> bool" where
  "regex_match [] s = (s = [])"
| "regex_match (One cs # r) [] = False"
| "regex_match (One cs # r) (c # s) = (c \<in> set cs \<and> regex_match r s)"
| "regex_match (OneOrMore cs # r) [] = False"
| "regex_match (OneOrMore cs # r) (c # s) =
     (c \<in> set cs \<and> (regex_match r s \<or> regex_match (OneOrMore cs # r) s))"

definition alnum :: "char list" where
  "alnum = ''abcdefghijklmnopqrstuvwxyzABCDEFGHIJKLMNOPQRSTUVWXYZ0123456789''"

text \<open>\<^verbatim>\<open>^[a-zA-Z0-9_.+-]+@[a-zA-Z0-9-]+\.[a-zA-Z0-9-.]+$\<close>\<close>

definition email_regex :: "rx list" where
  "email_regex =
     [OneOrMore (alnum @ ''_.+-''), One ''@'', OneOrMore (alnum @ ''-''), One ''.'',
      OneOrMore (alnum @ ''-.'')]"

section \<open>Field declarations\<close>

datatype factory = utcnow

record field =
  fname :: string
  annotation :: ftype
  optional :: bool
  default :: "pyval option"
  default_factory :: "factory option"
  primary_key :: bool
  foreign_key :: "string option"
  unique :: bool
  max_length :: "nat option"
  min_length :: "nat option"
  ge :: "int option"
  le :: "int option"
  decimal_places :: "nat option"
  max_digits :: "nat option"
  regex :: "rx list option"

text \<open>
  \<open>FieldInfo n t\<close> is the declaration \<^verbatim>\<open>n: t\<close> with no argument: required and
  unconstrained (the name \<open>Field\<close> is taken by the field of a relation).
  \<open>Optional n t\<close> is \<^verbatim>\<open>n: Optional[t]\<close>. The arguments of \<^verbatim>\<open>Field(...)\<close> are record updates.
\<close>

definition FieldInfo :: "string \<Rightarrow> ftype \<Rightarrow> field" where
  "FieldInfo n t =
     \<lparr>fname = n, annotation = t, optional = False, default = None, default_factory = None,
      primary_key = False, foreign_key = None, unique = False, max_length = None,
      min_length = None, ge = None, le = None, decimal_places = None, max_digits = None,
      regex = None\<rparr>"

definition Optional :: "string \<Rightarrow> ftype \<Rightarrow> field" where
  "Optional n t = (FieldInfo n t)\<lparr>optional := True\<rparr>"

section \<open>Validation\<close>

datatype error_type =
    missing
  | none_not_allowed
  | type_error
  | enum_error
  | string_too_short
  | string_too_long
  | string_pattern_mismatch
  | greater_than_equal
  | less_than_equal
  | decimal_max_digits
  | decimal_max_places
  | decimal_whole_digits

text \<open>A \<^verbatim>\<open>ValidationError\<close> lists the offending fields, each with the violated constraint.\<close>

type_synonym ValidationError = "(string \<times> error_type) list"

definition check_str :: "field \<Rightarrow> string \<Rightarrow> error_type option" where
  "check_str f s =
     (if (case min_length f of None \<Rightarrow> False | Some n \<Rightarrow> length s < n) then Some string_too_short
      else if (case max_length f of None \<Rightarrow> False | Some n \<Rightarrow> n < length s) then Some string_too_long
      else if (case regex f of None \<Rightarrow> False | Some r \<Rightarrow> \<not> regex_match r s)
        then Some string_pattern_mismatch
      else None)"

definition check_int :: "field \<Rightarrow> int \<Rightarrow> error_type option" where
  "check_int f i =
     (if (case ge f of None \<Rightarrow> False | Some b \<Rightarrow> i < b) then Some greater_than_equal
      else if (case le f of None \<Rightarrow> False | Some b \<Rightarrow> b < i) then Some less_than_equal
      else None)"

text \<open>
  The digit counts of a decimal, from its tuple: the number of decimal places and the
  total number of digits. \<open>Decimal_normalize\<close> is \<^verbatim>\<open>Decimal.normalize()\<close>: trailing zeros of the
  coefficient move into the exponent, and a zero becomes \<^verbatim>\<open>Decimal("0")\<close> (exact for
  coefficients within the context precision).
\<close>

definition decimals :: "decimal \<Rightarrow> nat" where
  "decimals d = (if 0 \<le> dexponent d then 0 else nat (- dexponent d))"

definition digit_count :: "decimal \<Rightarrow> nat" where
  "digit_count d =
     (if 0 \<le> dexponent d then length (ddigits d) + nat (dexponent d)
      else max (length (ddigits d)) (nat (- dexponent d)))"

definition trailing_zeros :: "nat list \<Rightarrow> nat" where
  "trailing_zeros ds = length (takeWhile (\<lambda>x. x = 0) (rev ds))"

definition Decimal_normalize :: "decimal \<Rightarrow> decimal" where
  "Decimal_normalize d =
     (if list_all (\<lambda>x. x = 0) (ddigits d) then Decimal (dsign d) [0] 0
      else Decimal (dsign d)
             (take (length (ddigits d) - trailing_zeros (ddigits d)) (ddigits d))
             (dexponent d + int (trailing_zeros (ddigits d))))"

text \<open>
  \<^verbatim>\<open>max_digits\<close> and \<^verbatim>\<open>decimal_places\<close> do not count trailing decimal zeros: a bound is
  violated when both the value as written and its normalized form exceed it. With both
  bounds given, the digits before the point are bounded by their difference.
\<close>

definition check_decimal :: "field \<Rightarrow> decimal \<Rightarrow> error_type option" where
  "check_decimal f d =
     (if (case max_digits f of None \<Rightarrow> False
          | Some m \<Rightarrow> m < digit_count d \<and> m < digit_count (Decimal_normalize d))
        then Some decimal_max_digits
      else case decimal_places f of
        None \<Rightarrow> None
      | Some p \<Rightarrow>
          if p < decimals d \<and> p < decimals (Decimal_normalize d) then Some decimal_max_places
          else (case max_digits f of
                  None \<Rightarrow> None
                | Some m \<Rightarrow>
                    if m - p < digit_count d - decimals d then Some decimal_whole_digits
                    else None))"

text \<open>
  One value against one field: \<^verbatim>\<open>None\<close> is accepted by an \<^verbatim>\<open>Optional\<close> annotation only;
  any other value must be of the annotated type (a member of an enumeration is given by
  its literal) and satisfy the field's constraints. Conversions between types are not
  modelled: a value of another type is a \<open>type_error\<close>.
\<close>

fun check_value :: "field \<Rightarrow> pyval \<Rightarrow> error_type option" where
  "check_value f PyNone = (if optional f then None else Some none_not_allowed)"
| "check_value f (PyStr s) =
     (case annotation f of
        T_str \<Rightarrow> check_str f s
      | T_Enum vs \<Rightarrow> (if s \<in> set vs then None else Some enum_error)
      | _ \<Rightarrow> Some type_error)"
| "check_value f (PyInt i) =
     (case annotation f of T_int \<Rightarrow> check_int f i | _ \<Rightarrow> Some type_error)"
| "check_value f (PyBool b) =
     (case annotation f of T_bool \<Rightarrow> None | _ \<Rightarrow> Some type_error)"
| "check_value f (PyDecimal d) =
     (case annotation f of T_Decimal \<Rightarrow> check_decimal f d | _ \<Rightarrow> Some type_error)"
| "check_value f (PyDatetime t) =
     (case annotation f of T_datetime \<Rightarrow> None | _ \<Rightarrow> Some type_error)"
| "check_value f (PyList xs) =
     (case annotation f of T_List_str \<Rightarrow> None | _ \<Rightarrow> Some type_error)"

text \<open>
  The input of a construction is the dictionary of its keyword arguments. A field absent
  from it takes its default (unchecked), or the value of its default factory, which
  reads the clock \<open>now\<close>; with neither, the field is required and its absence is an
  error. Keys that name no field are ignored.
\<close>

type_synonym kwargs = "string \<rightharpoonup> pyval"

definition get_default :: "int \<Rightarrow> field \<Rightarrow> pyval option" where
  "get_default now f =
     (case default f of
        Some v \<Rightarrow> Some v
      | None \<Rightarrow> (case default_factory f of Some utcnow \<Rightarrow> Some (PyDatetime now) | None \<Rightarrow> None))"

definition validate_field :: "int \<Rightarrow> field \<Rightarrow> kwargs \<Rightarrow> error_type + pyval" where
  "validate_field now f kw =
     (case kw (fname f) of
        None \<Rightarrow> (case get_default now f of None \<Rightarrow> Inl missing | Some v \<Rightarrow> Inr v)
      | Some v \<Rightarrow> (case check_value f v of Some e \<Rightarrow> Inl e | None \<Rightarrow> Inr v))"

fun field_errors :: "int \<Rightarrow> field list \<Rightarrow> kwargs \<Rightarrow> ValidationError" where
  "field_errors now [] kw = []"
| "field_errors now (f # fs) kw =
     (case validate_field now f kw of
        Inl e \<Rightarrow> (fname f, e) # field_errors now fs kw
      | Inr v \<Rightarrow> field_errors now fs kw)"

fun field_values :: "int \<Rightarrow> field list \<Rightarrow> kwargs \<Rightarrow> (string \<times> pyval) list" where
  "field_values now [] kw = []"
| "field_values now (f # fs) kw =
     (case validate_field now f kw of
        Inl e \<Rightarrow> field_values now fs kw
      | Inr v \<Rightarrow> (fname f, v) # field_values now fs kw)"

text \<open>
  A constructed shape: the value of every field, in declaration order, and the names of
  the fields that were given in the input (\<^verbatim>\<open>model_fields_set\<close>).
\<close>

record model =
  fields_values :: "(string \<times> pyval) list"
  fields_set :: "string list"

definition validate :: "int \<Rightarrow> field list \<Rightarrow> kwargs \<Rightarrow> ValidationError + model" where
  "validate now schema kw =
     (case field_errors now schema kw of
        [] \<Rightarrow> Inr \<lparr>fields_values = field_values now schema kw,
                   fields_set = filter (\<lambda>n. kw n \<noteq> None) (map fname schema)\<rparr>
      | e # es \<Rightarrow> Inl (e # es))"

section \<open>Persistent models\<close>

text \<open>
  The columns of each table class, in source order. \<^verbatim>\<open>Relationship(...)\<close> attributes are
  not columns and carry no constraint; they are left out. \<^verbatim>\<open>sa_column=Column(JSON)\<close> only
  chooses the storage type of a list column.
\<close>

definition User :: "field list" where
  "User =
     [(Optional ''id'' T_int)\<lparr>default := Some PyNone, primary_key := True\<rparr>,
      (FieldInfo ''email'' T_str)\<lparr>unique := True, max_length := Some 255, regex := Some email_regex\<rparr>,
      (FieldInfo ''password_hash'' T_str)\<lparr>max_length := Some 255\<rparr>,
      (FieldInfo ''full_name'' T_str)\<lparr>max_length := Some 200\<rparr>,
      (FieldInfo ''phone'' T_str)\<lparr>max_length := Some 20\<rparr>,
      (FieldInfo ''role'' (T_Enum UserRole))\<lparr>default := Some (PyStr ''seeker'')\<rparr>,
      (FieldInfo ''status'' (T_Enum UserStatus))\<lparr>default := Some (PyStr ''active'')\<rparr>,
      (Optional ''avatar_url'' T_str)\<lparr>default := Some PyNone, max_length := Some 500\<rparr>,
      (FieldInfo ''created_at'' T_datetime)\<lparr>default_factory := Some utcnow\<rparr>,
      (FieldInfo ''updated_at'' T_datetime)\<lparr>default_factory := Some utcnow\<rparr>,
      (Optional ''last_login'' T_datetime)\<lparr>default := Some PyNone\<rparr>]"

definition ProviderProfile :: "field list" where
  "ProviderProfile =
     [(Optional ''id'' T_int)\<lparr>default := Some PyNone, primary_key := True\<rparr>,
      (FieldInfo ''user_id'' T_int)\<lparr>foreign_key := Some ''users.id'', unique := True\<rparr>,
      (FieldInfo ''business_name'' T_str)\<lparr>max_length := Some 200\<rparr>,
      (FieldInfo ''description'' T_str)\<lparr>max_length := Some 2000\<rparr>,
      (FieldInfo ''address'' T_str)\<lparr>max_length := Some 500\<rparr>,
      (FieldInfo ''city'' T_str)\<lparr>max_length := Some 100\<rparr>,
      (FieldInfo ''province'' T_str)\<lparr>max_length := Some 100\<rparr>,
      (FieldInfo ''postal_code'' T_str)\<lparr>max_length := Some 10\<rparr>,
      (Optional ''license_number'' T_str)\<lparr>default := Some PyNone, max_length := Some 100\<rparr>,
      (FieldInfo ''years_experience'' T_int)\<lparr>default := Some (PyInt 0)\<rparr>,
      (FieldInfo ''is_verified'' T_bool)\<lparr>default := Some (PyBool False)\<rparr>,
      (FieldInfo ''is_available'' T_bool)\<lparr>default := Some (PyBool True)\<rparr>,
      (FieldInfo ''average_rating'' T_Decimal)
        \<lparr>default := Some (PyDecimal (Decimal False [0] 0)), decimal_places := Some 2,
         max_digits := Some 3\<rparr>,
      (FieldInfo ''total_reviews'' T_int)\<lparr>default := Some (PyInt 0)\<rparr>,
      (FieldInfo ''total_completed_services'' T_int)\<lparr>default := Some (PyInt 0)\<rparr>,
      (FieldInfo ''gallery_images'' T_List_str)\<lparr>default := Some (PyList [])\<rparr>,
      (FieldInfo ''certificates'' T_List_str)\<lparr>default := Some (PyList [])\<rparr>,
      (FieldInfo ''created_at'' T_datetime)\<lparr>default_factory := Some utcnow\<rparr>,
      (FieldInfo ''updated_at'' T_datetime)\<lparr>default_factory := Some utcnow\<rparr>]"

definition Service :: "field list" where
  "Service =
     [(Optional ''id'' T_int)\<lparr>default := Some PyNone, primary_key := True\<rparr>,
      (FieldInfo ''provider_id'' T_int)\<lparr>foreign_key := Some ''provider_profiles.id''\<rparr>,
      (FieldInfo ''title'' T_str)\<lparr>max_length := Some 200\<rparr>,
      (FieldInfo ''description'' T_str)\<lparr>max_length := Some 2000\<rparr>,
      FieldInfo ''service_type'' (T_Enum ServiceType),
      (FieldInfo ''price'' T_Decimal)\<lparr>decimal_places := Some 2, max_digits := Some 12\<rparr>,
      (FieldInfo ''duration_days'' T_int)\<lparr>default := Some (PyInt 40)\<rparr>,
      (FieldInfo ''max_capacity'' T_int)\<lparr>default := Some (PyInt 1)\<rparr>,
      (FieldInfo ''includes'' T_List_str)\<lparr>default := Some (PyList [])\<rparr>,
      (FieldInfo ''requirements'' T_List_str)\<lparr>default := Some (PyList [])\<rparr>,
      (FieldInfo ''is_active'' T_bool)\<lparr>default := Some (PyBool True)\<rparr>,
      (FieldInfo ''created_at'' T_datetime)\<lparr>default_factory := Some utcnow\<rparr>,
      (FieldInfo ''updated_at'' T_datetime)\<lparr>default_factory := Some utcnow\<rparr>]"


definition ChatMessage :: "field list" where
  "ChatMessage =
     [(Optional ''id'' T_int)\<lparr>default := Some PyNone, primary_key := True\<rparr>,
      (FieldInfo ''sender_id'' T_int)\<lparr>foreign_key := Some ''users.id''\<rparr>,
      (FieldInfo ''receiver_id'' T_int)\<lparr>foreign_key := Some ''users.id''\<rparr>,
      (Optional ''booking_id'' T_int)\<lparr>default := Some PyNone, foreign_key := Some ''bookings.id''\<rparr>,
      (FieldInfo ''message'' T_str)\<lparr>max_length := Some 2000\<rparr>,
      (FieldInfo ''is_read'' T_bool)\<lparr>default := Some (PyBool False)\<rparr>,
      (FieldInfo ''created_at'' T_datetime)\<lparr>default_factory := Some utcnow\<rparr>]"

definition Review :: "field list" where
  "Review =
     [(Optional ''id'' T_int)\<lparr>default := Some PyNone, primary_key := True\<rparr>,
      (FieldInfo ''booking_id'' T_int)\<lparr>foreign_key := Some ''bookings.id'', unique := True\<rparr>,
      (FieldInfo ''reviewer_id'' T_int)\<lparr>foreign_key := Some ''users.id''\<rparr>,
      (FieldInfo ''rating'' T_int)\<lparr>ge := Some 1, le := Some 5\<rparr>,
      (Optional ''comment'' T_str)\<lparr>default := Some PyNone, max_length := Some 1000\<rparr>,
      (FieldInfo ''created_at'' T_datetime)\<lparr>default_factory := Some utcnow\<rparr>,
      (FieldInfo ''updated_at'' T_datetime)\<lparr>default_factory := Some utcnow\<rparr>]"

definition Notification :: "field list" where
  "Notification =
     [(Optional ''id'' T_int)\<lparr>default := Some PyNone, primary_key := True\<rparr>,
      (FieldInfo ''user_id'' T_int)\<lparr>foreign_key := Some ''users.id''\<rparr>,
      (FieldInfo ''title'' T_str)\<lparr>max_length := Some 200\<rparr>,
      (FieldInfo ''message'' T_str)\<lparr>max_length := Some 1000\<rparr>,
      (FieldInfo ''status'' (T_Enum NotificationStatus))\<lparr>default := Some (PyStr ''unread'')\<rparr>,
      (FieldInfo ''notification_type'' T_str)\<lparr>max_length := Some 50\<rparr>,
      (Optional ''related_id'' T_int)\<lparr>default := Some PyNone\<rparr>,
      (FieldInfo ''created_at'' T_datetime)\<lparr>default_factory := Some utcnow\<rparr>]"

definition BlogPost :: "field list" where
  "BlogPost =
     [(Optional ''id'' T_int)\<lparr>default := Some PyNone, primary_key := True\<rparr>,
      (FieldInfo ''author_id'' T_int)\<lparr>foreign_key := Some ''users.id''\<rparr>,
      (FieldInfo ''title'' T_str)\<lparr>max_length := Some 300\<rparr>,
      (FieldInfo ''slug'' T_str)\<lparr>unique := True, max_length := Some 300\<rparr>,
      FieldInfo ''content'' T_str,
      (Optional ''excerpt'' T_str)\<lparr>default := Some PyNone, max_length := Some 500\<rparr>,
      (Optional ''featured_image'' T_str)\<lparr>default := Some PyNone, max_length := Some 500\<rparr>,
      (FieldInfo ''status'' (T_Enum BlogStatus))\<lparr>default := Some (PyStr ''draft'')\<rparr>,
      (FieldInfo ''tags'' T_List_str)\<lparr>default := Some (PyList [])\<rparr>,
      (FieldInfo ''view_count'' T_int)\<lparr>default := Some (PyInt 0)\<rparr>,
      (Optional ''published_at'' T_datetime)\<lparr>default := Some PyNone\<rparr>,
      (FieldInfo ''created_at'' T_datetime)\<lparr>default_factory := Some utcnow\<rparr>,
      (FieldInfo ''updated_at'' T_datetime)\<lparr>default_factory := Some utcnow\<rparr>]"

definition SystemSettings :: "field list" where
  "SystemSettings =
     [(Optional ''id'' T_int)\<lparr>default := Some PyNone, primary_key := True\<rparr>,
      (FieldInfo ''key'' T_str)\<lparr>unique := True, max_length := Some 100\<rparr>,
      (FieldInfo ''value'' T_str)\<lparr>max_length := Some 2000\<rparr>,
      (Optional ''description'' T_str)\<lparr>default := Some PyNone, max_length := Some 500\<rparr>,
      (FieldInfo ''created_at'' T_datetime)\<lparr>default_factory := Some utcnow\<rparr>,
      (FieldInfo ''updated_at'' T_datetime)\<lparr>default_factory := Some utcnow\<rparr>]"

section \<open>Non-persistent schemas\<close>

definition UserCreate :: "field list" where
  "UserCreate =
     [(FieldInfo ''email'' T_str)\<lparr>max_length := Some 255\<rparr>,
      (FieldInfo ''password'' T_str)\<lparr>min_length := Some 8, max_length := Some 128\<rparr>,
      (FieldInfo ''full_name'' T_str)\<lparr>max_length := Some 200\<rparr>,
      (FieldInfo ''phone'' T_str)\<lparr>max_length := Some 20\<rparr>,
      (FieldInfo ''role'' (T_Enum UserRole))\<lparr>default := Some (PyStr ''seeker'')\<rparr>]"

definition UserLogin :: "field list" where
  "UserLogin =
     [(FieldInfo ''email'' T_str)\<lparr>max_length := Some 255\<rparr>,
      (FieldInfo ''password'' T_str)\<lparr>max_length := Some 128\<rparr>]"

definition UserUpdate :: "field list" where
  "UserUpdate =
     [(Optional ''full_name'' T_str)\<lparr>default := Some PyNone, max_length := Some 200\<rparr>,
      (Optional ''phone'' T_str)\<lparr>default := Some PyNone, max_length := Some 20\<rparr>,
      (Optional ''avatar_url'' T_str)\<lparr>default := Some PyNone, max_length := Some 500\<rparr>]"

definition ProviderProfileCreate :: "field list" where
  "ProviderProfileCreate =
     [(FieldInfo ''business_name'' T_str)\<lparr>max_length := Some 200\<rparr>,
      (FieldInfo ''description'' T_str)\<lparr>max_length := Some 2000\<rparr>,
      (FieldInfo ''address'' T_str)\<lparr>max_length := Some 500\<rparr>,
      (FieldInfo ''city'' T_str)\<lparr>max_length := Some 100\<rparr>,
      (FieldInfo ''province'' T_str)\<lparr>max_length := Some 100\<rparr>,
      (FieldInfo ''postal_code'' T_str)\<lparr>max_length := Some 10\<rparr>,
      (Optional ''license_number'' T_str)\<lparr>default := Some PyNone, max_length := Some 100\<rparr>,
      (FieldInfo ''years_experience'' T_int)\<lparr>default := Some (PyInt 0)\<rparr>]"

definition ProviderProfileUpdate :: "field list" where
  "ProviderProfileUpdate =
     [(Optional ''business_name'' T_str)\<lparr>default := Some PyNone, max_length := Some 200\<rparr>,
      (Optional ''description'' T_str)\<lparr>default := Some PyNone, max_length := Some 2000\<rparr>,
      (Optional ''address'' T_str)\<lparr>default := Some PyNone, max_length := Some 500\<rparr>,
      (Optional ''city'' T_str)\<lparr>default := Some PyNone, max_length := Some 100\<rparr>,
      (Optional ''province'' T_str)\<lparr>default := Some PyNone, max_length := Some 100\<rparr>,
      (Optional ''postal_code'' T_str)\<lparr>default := Some PyNone, max_length := Some 10\<rparr>,
      (Optional ''license_number'' T_str)\<lparr>default := Some PyNone, max_length := Some 100\<rparr>,
      (Optional ''years_experience'' T_int)\<lparr>default := Some PyNone\<rparr>,
      (Optional ''is_available'' T_bool)\<lparr>default := Some PyNone\<rparr>,
      (Optional ''gallery_images'' T_List_str)\<lparr>default := Some PyNone\<rparr>,
      (Optional ''certificates'' T_List_str)\<lparr>default := Some PyNone\<rparr>]"

definition ServiceCreate :: "field list" where
  "ServiceCreate =
     [(FieldInfo ''title'' T_str)\<lparr>max_length := Some 200\<rparr>,
      (FieldInfo ''description'' T_str)\<lparr>max_length := Some 2000\<rparr>,
      FieldInfo ''service_type'' (T_Enum ServiceType),
      (FieldInfo ''price'' T_Decimal)\<lparr>decimal_places := Some 2, max_digits := Some 12\<rparr>,
      (FieldInfo ''duration_days'' T_int)\<lparr>default := Some (PyInt 40)\<rparr>,
      (FieldInfo ''max_capacity'' T_int)\<lparr>default := Some (PyInt 1)\<rparr>,
      (FieldInfo ''includes'' T_List_str)\<lparr>default := Some (PyList [])\<rparr>,
      (FieldInfo ''requirements'' T_List_str)\<lparr>default := Some (PyList [])\<rparr>]"

definition ServiceUpdate :: "field list" where
  "ServiceUpdate =
     [(Optional ''title'' T_str)\<lparr>default := Some PyNone, max_length := Some 200\<rparr>,
      (Optional ''description'' T_str)\<lparr>default := Some PyNone, max_length := Some 2000\<rparr>,
      (Optional ''price'' T_Decimal)
        \<lparr>default := Some PyNone, decimal_places := Some 2, max_digits := Some 12\<rparr>,
      (Optional ''duration_days'' T_int)\<lparr>default := Some PyNone\<rparr>,
      (Optional ''max_capacity'' T_int)\<lparr>default := Some PyNone\<rparr>,
      (Optional ''includes'' T_List_str)\<lparr>default := Some PyNone\<rparr>,
      (Optional ''requirements'' T_List_str)\<lparr>default := Some PyNone\<rparr>,
      (Optional ''is_active'' T_bool)\<lparr>default := Some PyNone\<rparr>]"

definition BookingCreate :: "field list" where
  "BookingCreate =
     [FieldInfo ''service_id'' T_int,
      FieldInfo ''service_start_date'' T_datetime,
      (Optional ''special_requests'' T_str)\<lparr>default := Some PyNone, max_length := Some 1000\<rparr>]"

definition BookingUpdate :: "field list" where
  "BookingUpdate =
     [(Optional ''status'' (T_Enum BookingStatus))\<lparr>default := Some PyNone\<rparr>,
      (Optional ''payment_status'' (T_Enum PaymentStatus))\<lparr>default := Some PyNone\<rparr>,
      (Optional ''seeker_notes'' T_str)\<lparr>default := Some PyNone, max_length := Some 1000\<rparr>,
      (Optional ''provider_notes'' T_str)\<lparr>default := Some PyNone, max_length := Some 1000\<rparr>]"

definition ChatMessageCreate :: "field list" where
  "ChatMessageCreate =
     [FieldInfo ''receiver_id'' T_int,
      (Optional ''booking_id'' T_int)\<lparr>default := Some PyNone\<rparr>,
      (FieldInfo ''message'' T_str)\<lparr>max_length := Some 2000\<rparr>]"

definition ReviewCreate :: "field list" where
  "ReviewCreate =
     [FieldInfo ''booking_id'' T_int,
      (FieldInfo ''rating'' T_int)\<lparr>ge := Some 1, le := Some 5\<rparr>,
      (Optional ''comment'' T_str)\<lparr>default := Some PyNone, max_length := Some 1000\<rparr>]"

definition ReviewUpdate :: "field list" where
  "ReviewUpdate =
     [(Optional ''rating'' T_int)\<lparr>default := Some PyNone, ge := Some 1, le := Some 5\<rparr>,
      (Optional ''comment'' T_str)\<lparr>default := Some PyNone, max_length := Some 1000\<rparr>]"

definition NotificationCreate :: "field list" where
  "NotificationCreate =
     [FieldInfo ''user_id'' T_int,
      (FieldInfo ''title'' T_str)\<lparr>max_length := Some 200\<rparr>,
      (FieldInfo ''message'' T_str)\<lparr>max_length := Some 1000\<rparr>,
      (FieldInfo ''notification_type'' T_str)\<lparr>max_length := Some 50\<rparr>,
      (Optional ''related_id'' T_int)\<lparr>default := Some PyNone\<rparr>]"

definition BlogPostCreate :: "field list" where
  "BlogPostCreate =
     [(FieldInfo ''title'' T_str)\<lparr>max_length := Some 300\<rparr>,
      FieldInfo ''content'' T_str,
      (Optional ''excerpt'' T_str)\<lparr>default := Some PyNone, max_length := Some 500\<rparr>,
      (Optional ''featured_image'' T_str)\<lparr>default := Some PyNone, max_length := Some 500\<rparr>,
      (FieldInfo ''tags'' T_List_str)\<lparr>default := Some (PyList [])\<rparr>]"

definition BlogPostUpdate :: "field list" where
  "BlogPostUpdate =
     [(Optional ''title'' T_str)\<lparr>default := Some PyNone, max_length := Some 300\<rparr>,
      (Optional ''content'' T_str)\<lparr>default := Some PyNone\<rparr>,
      (Optional ''excerpt'' T_str)\<lparr>default := Some PyNone, max_length := Some 500\<rparr>,
      (Optional ''featured_image'' T_str)\<lparr>default := Some PyNone, max_length := Some 500\<rparr>,
      (Optional ''status'' (T_Enum BlogStatus))\<lparr>default := Some PyNone\<rparr>,
      (Optional ''tags'' T_List_str)\<lparr>default := Some PyNone\<rparr>]"

definition SystemSettingsCreate :: "field list" where
  "SystemSettingsCreate =
     [(FieldInfo ''key'' T_str)\<lparr>max_length := Some 100\<rparr>,
      (FieldInfo ''value'' T_str)\<lparr>max_length := Some 2000\<rparr>,
      (Optional ''description'' T_str)\<lparr>default := Some PyNone, max_length := Some 500\<rparr>]"

definition SystemSettingsUpdate :: "field list" where
  "SystemSettingsUpdate =
     [(FieldInfo ''value'' T_str)\<lparr>max_length := Some 2000\<rparr>,
      (Optional ''description'' T_str)\<lparr>default := Some PyNone, max_length := Some 500\<rparr>]"

section \<open>Entities\<close>

text \<open>
  A stored entity is a row: a map from column names to values. Constructing a table class
  from keyword arguments gives every column its argument, or else its declared default.
\<close>

type_synonym row = "string \<rightharpoonup> pyval"

definition new_row :: "int \<Rightarrow> field list \<Rightarrow> kwargs \<Rightarrow> row" where
  "new_row now table kw =
     (\<lambda>n. case find (\<lambda>f. fname f = n) table of
            None \<Rightarrow> None
          | Some f \<Rightarrow> (case kw n of Some v \<Rightarrow> Some v | None \<Rightarrow> get_default now f))"

text \<open>
  \<^verbatim>\<open>model_dump(exclude_unset=True)\<close> of a constructed shape lists the fields that were given
  in the input, with their values; \<open>setattrs\<close> assigns a list of fields to an entity, one
  by one. The module declares the shapes and leaves their use to its callers: a partial
  update assigns to the entity the dump of the Update shape without its unset fields.
\<close>

definition model_dump_exclude_unset :: "model \<Rightarrow> (string \<times> pyval) list" where
  "model_dump_exclude_unset m =
     filter (\<lambda>(n, v). n \<in> set (fields_set m)) (fields_values m)"

fun setattrs :: "row \<Rightarrow> (string \<times> pyval) list \<Rightarrow> row" where
  "setattrs r [] = r"
| "setattrs r ((n, v) # xs) = setattrs (r(n \<mapsto> v)) xs"

text \<open>
  The module leaves storage to the persistence engine, which enforces what a table
  declares. \<open>insert_row\<close> is the insertion of a row into the rows of a table: a row whose
  value in a \<^verbatim>\<open>unique=True\<close> or primary-key column is already stored in that column is
  refused with an integrity error naming the column, and the rows stay as they were. A
  NULL conflicts with nothing. Foreign keys and the assignment of ids are left out.
\<close>

datatype IntegrityError = IntegrityError string

definition duplicates :: "field \<Rightarrow> row \<Rightarrow> row \<Rightarrow> bool" where
  "duplicates f r r' =
     (case r (fname f) of None \<Rightarrow> False | Some v \<Rightarrow> v \<noteq> PyNone \<and> r' (fname f) = Some v)"

definition violated :: "field list \<Rightarrow> row list \<Rightarrow> row \<Rightarrow> string list" where
  "violated table rows r =
     map fname
       (filter (\<lambda>f. (unique f \<or> primary_key f) \<and> list_ex (duplicates f r) rows) table)"

definition insert_row ::
  "field list \<Rightarrow> row list \<Rightarrow> row \<Rightarrow> IntegrityError option \<times> row list" where
  "insert_row table rows r =
     (case violated table rows r of
        [] \<Rightarrow> (None, rows @ [r])
      | n # ns \<Rightarrow> (Some (IntegrityError n), rows))"

text \<open>The non-NULL values stored in a column, row by row.\<close>

fun column :: "string \<Rightarrow> row list \<Rightarrow> pyval list" where
  "column n [] = []"
| "column n (r # rs) =
     (case r n of
        None \<Rightarrow> column n rs
      | Some v \<Rightarrow> (if v = PyNone then column n rs else v # column n rs))"

text \<open>
  Each Update shape of the module with the Create shape of the same entity, and the
  constraints a field declaration puts on a value that is not \<^verbatim>\<open>None\<close>.
\<close>

definition Update_views :: "(field list \<times> field list) list" where
  "Update_views =
     [(UserUpdate, UserCreate),
      (ProviderProfileUpdate, ProviderProfileCreate),
      (ServiceUpdate, ServiceCreate),
      (BookingUpdate, BookingCreate),
      (ReviewUpdate, ReviewCreate),
      (BlogPostUpdate, BlogPostCreate),
      (SystemSettingsUpdate, SystemSettingsCreate)]"

definition constraints ::
  "field \<Rightarrow> ftype \<times> nat option \<times> nat option \<times> int option \<times> int option \<times> nat option \<times> nat option \<times> rx list option"
  where
  "constraints f =
     (annotation f, max_length f, min_length f, ge f, le f, decimal_places f, max_digits f,
      regex f)"

definition same_constraints :: "field list \<Rightarrow> field list \<Rightarrow> bool" where
  "same_constraints U C =
     list_all (\<lambda>f. list_all (\<lambda>g. fname f \<noteq> fname g \<or> constraints f = constraints g) C) U"

section \<open>Properties of validation\<close>

lemma field_errors_iff:
  "((n, e) \<in> set (field_errors now fs kw)) =
     (\<exists>f \<in> set fs. fname f = n \<and> validate_field now f kw = Inl e)"
  by (induction fs) (auto split: sum.splits)

lemma field_errors_Nil:
  "field_errors now fs kw = [] \<Longrightarrow> f \<in> set fs \<Longrightarrow> \<exists>v. validate_field now f kw = Inr v"
  by (induction fs) (auto split: sum.splits)

lemma field_values_sound:
  "(n, v) \<in> set (field_values now fs kw) \<Longrightarrow>
     \<exists>f \<in> set fs. fname f = n \<and> validate_field now f kw = Inr v"
  by (induction fs) (auto split: sum.splits)

lemma field_values_complete:
  "f \<in> set fs \<Longrightarrow> validate_field now f kw = Inr v \<Longrightarrow>
     (fname f, v) \<in> set (field_values now fs kw)"
  by (induction fs) (auto split: sum.splits)

lemma validate_Inr:
  "validate now fs kw = Inr m \<Longrightarrow>
     field_errors now fs kw = [] \<and> fields_values m = field_values now fs kw \<and>
     fields_set m = filter (\<lambda>n. kw n \<noteq> None) (map fname fs)"
  by (auto simp: validate_def split: list.splits)

lemma validate_Inl:
  "validate now fs kw = Inl es \<Longrightarrow> es = field_errors now fs kw \<and> es \<noteq> []"
  by (auto simp: validate_def split: list.splits)

lemma validate_succeeds_iff:
  "(\<exists>m. validate now fs kw = Inr m) = (field_errors now fs kw = [])"
  by (auto simp: validate_def split: list.splits)

lemma validate_fails_iff:
  "(\<exists>es. validate now fs kw = Inl es \<and> x \<in> set es) = (x \<in> set (field_errors now fs kw))"
  by (auto simp: validate_def split: list.splits)

lemma validate_field_given:
  "kw (fname f) = Some v \<Longrightarrow> validate_field now f kw = Inr w \<Longrightarrow>
     w = v \<and> check_value f v = None"
  by (auto simp: validate_field_def split: option.splits)

subsection \<open>Ratings\<close>

lemma rating_errors:
  assumes "kw ''rating'' = Some (PyInt r)"
  shows "((''rating'', e) \<in> set (field_errors now ReviewCreate kw)) =
           (r < 1 \<and> e = greater_than_equal \<or> 5 < r \<and> e = less_than_equal)"
  unfolding field_errors_iff using assms
  by (auto simp: ReviewCreate_def FieldInfo_def Optional_def validate_field_def check_int_def)

lemma ReviewCreate_errors:
  assumes "kw ''booking_id'' = Some (PyInt b)" and "kw ''comment'' = None"
    and "kw ''rating'' = Some (PyInt r)"
  shows "field_errors now ReviewCreate kw =
           (if r < 1 then [(''rating'', greater_than_equal)]
            else if 5 < r then [(''rating'', less_than_equal)] else [])"
  using assms
  by (simp add: ReviewCreate_def FieldInfo_def Optional_def validate_field_def check_int_def
      get_default_def)

text \<open>
  C7. A \<^verbatim>\<open>ReviewCreate\<close> input whose rating is the integer \<open>r\<close>: validation reports the
  field \<^verbatim>\<open>rating\<close> exactly when \<open>r\<close> is outside 1..5 (below 1 as a violation of \<^verbatim>\<open>ge=1\<close>,
  above 5 of \<^verbatim>\<open>le=5\<close>), and, the other fields being valid, the input is accepted if and
  only if \<open>1 \<le> r \<le> 5\<close>. In particular 0 and 6 are rejected, 1 and 5 accepted.
\<close>

theorem ReviewCreate_rating:
  assumes "kw ''rating'' = Some (PyInt r)"
  shows "(1 \<le> r \<and> r \<le> 5 \<longrightarrow>
            (\<forall>es. validate now ReviewCreate kw = Inl es \<longrightarrow> ''rating'' \<notin> fst ` set es))
       \<and> (r < 1 \<longrightarrow>
            (\<exists>es. validate now ReviewCreate kw = Inl es \<and> (''rating'', greater_than_equal) \<in> set es))
       \<and> (5 < r \<longrightarrow>
            (\<exists>es. validate now ReviewCreate kw = Inl es \<and> (''rating'', less_than_equal) \<in> set es))
       \<and> (kw ''booking_id'' = Some (PyInt b) \<and> kw ''comment'' = None \<longrightarrow>
            (\<exists>m. validate now ReviewCreate kw = Inr m) = (1 \<le> r \<and> r \<le> 5))"
proof -
  note re = rating_errors [of kw r, OF assms]
  show ?thesis
  proof (intro conjI impI allI)
  fix es
  assume ok: "1 \<le> r \<and> r \<le> 5" and "validate now ReviewCreate kw = Inl es"
  then have es: "es = field_errors now ReviewCreate kw" by (simp add: validate_Inl)
  show "''rating'' \<notin> fst ` set es"
  proof
    assume "''rating'' \<in> fst ` set es"
    then obtain e where "(''rating'', e) \<in> set (field_errors now ReviewCreate kw)"
      using es by force
    with ok show False by (simp add: re)
  qed
next
  assume "r < 1"
  then show "\<exists>es. validate now ReviewCreate kw = Inl es \<and> (''rating'', greater_than_equal) \<in> set es"
    by (simp add: validate_fails_iff re)
next
  assume "5 < r"
  then show "\<exists>es. validate now ReviewCreate kw = Inl es \<and> (''rating'', less_than_equal) \<in> set es"
    by (simp add: validate_fails_iff re)
next
  assume "kw ''booking_id'' = Some (PyInt b) \<and> kw ''comment'' = None"
  then show "(\<exists>m. validate now ReviewCreate kw = Inr m) = (1 \<le> r \<and> r \<le> 5)"
    using assms by (auto simp: validate_succeeds_iff ReviewCreate_errors)
  qed
qed

theorem ReviewCreate_rating_witness:
  "(\<exists>es. validate 0 ReviewCreate [''booking_id'' \<mapsto> PyInt 7, ''rating'' \<mapsto> PyInt 0] = Inl es
          \<and> (''rating'', greater_than_equal) \<in> set es)
   \<and> (\<exists>es. validate 0 ReviewCreate [''booking_id'' \<mapsto> PyInt 7, ''rating'' \<mapsto> PyInt 6] = Inl es
          \<and> (''rating'', less_than_equal) \<in> set es)
   \<and> (\<exists>m. validate 0 ReviewCreate [''booking_id'' \<mapsto> PyInt 7, ''rating'' \<mapsto> PyInt 1] = Inr m)
   \<and> (\<exists>m. validate 0 ReviewCreate [''booking_id'' \<mapsto> PyInt 7, ''rating'' \<mapsto> PyInt 5] = Inr m)"
  using ReviewCreate_rating [of "[''booking_id'' \<mapsto> PyInt 7, ''rating'' \<mapsto> PyInt 0]" 0 0 7]
    ReviewCreate_rating [of "[''booking_id'' \<mapsto> PyInt 7, ''rating'' \<mapsto> PyInt 6]" 6 0 7]
    ReviewCreate_rating [of "[''booking_id'' \<mapsto> PyInt 7, ''rating'' \<mapsto> PyInt 1]" 1 0 7]
    ReviewCreate_rating [of "[''booking_id'' \<mapsto> PyInt 7, ''rating'' \<mapsto> PyInt 5]" 5 0 7]
  by simp


subsection \<open>Passwords\<close>

lemma password_errors:
  assumes "kw ''password'' = Some (PyStr p)"
  shows "((''password'', e) \<in> set (field_errors now UserCreate kw)) =
           (length p < 8 \<and> e = string_too_short \<or> 128 < length p \<and> e = string_too_long)"
  unfolding field_errors_iff using assms
  by (auto simp: UserCreate_def FieldInfo_def Optional_def validate_field_def check_str_def)

lemma UserCreate_errors:
  assumes "kw ''email'' = Some (PyStr a)" and "length a \<le> 255"
    and "kw ''full_name'' = Some (PyStr n)" and "length n \<le> 200"
    and "kw ''phone'' = Some (PyStr t)" and "length t \<le> 20"
    and "kw ''role'' = None"
    and "kw ''password'' = Some (PyStr p)"
  shows "field_errors now UserCreate kw =
           (if length p < 8 then [(''password'', string_too_short)]
            else if 128 < length p then [(''password'', string_too_long)] else [])"
  using assms
  by (simp add: UserCreate_def FieldInfo_def Optional_def validate_field_def check_str_def
      get_default_def)

text \<open>
  C8. A \<^verbatim>\<open>UserCreate\<close> input whose password is the string \<open>p\<close>: validation reports the
  field \<^verbatim>\<open>password\<close> exactly when \<open>p\<close> has fewer than 8 or more than 128 characters, and, the
  other fields being valid, the input is accepted if and only if \<open>8 \<le> length p \<le> 128\<close>.
\<close>

theorem UserCreate_password:
  assumes "kw ''password'' = Some (PyStr p)"
  shows "(8 \<le> length p \<and> length p \<le> 128 \<longrightarrow>
            (\<forall>es. validate now UserCreate kw = Inl es \<longrightarrow> ''password'' \<notin> fst ` set es))
       \<and> (length p < 8 \<longrightarrow>
            (\<exists>es. validate now UserCreate kw = Inl es \<and> (''password'', string_too_short) \<in> set es))
       \<and> (128 < length p \<longrightarrow>
            (\<exists>es. validate now UserCreate kw = Inl es \<and> (''password'', string_too_long) \<in> set es))
       \<and> (kw ''email'' = Some (PyStr a) \<and> length a \<le> 255 \<and>
          kw ''full_name'' = Some (PyStr n) \<and> length n \<le> 200 \<and>
          kw ''phone'' = Some (PyStr t) \<and> length t \<le> 20 \<and> kw ''role'' = None \<longrightarrow>
            (\<exists>m. validate now UserCreate kw = Inr m) = (8 \<le> length p \<and> length p \<le> 128))"
proof -
  note pe = password_errors [of kw p, OF assms]
  show ?thesis
  proof (intro conjI impI allI)
    fix es
    assume ok: "8 \<le> length p \<and> length p \<le> 128" and "validate now UserCreate kw = Inl es"
    then have es: "es = field_errors now UserCreate kw" by (simp add: validate_Inl)
    show "''password'' \<notin> fst ` set es"
    proof
      assume "''password'' \<in> fst ` set es"
      then obtain e where "(''password'', e) \<in> set (field_errors now UserCreate kw)"
        using es by force
      with ok show False by (simp add: pe)
    qed
  next
    assume "length p < 8"
    then show "\<exists>es. validate now UserCreate kw = Inl es \<and> (''password'', string_too_short) \<in> set es"
      by (simp add: validate_fails_iff pe)
  next
    assume "128 < length p"
    then show "\<exists>es. validate now UserCreate kw = Inl es \<and> (''password'', string_too_long) \<in> set es"
      by (simp add: validate_fails_iff pe)
  next
    assume "kw ''email'' = Some (PyStr a) \<and> length a \<le> 255 \<and>
          kw ''full_name'' = Some (PyStr n) \<and> length n \<le> 200 \<and>
          kw ''phone'' = Some (PyStr t) \<and> length t \<le> 20 \<and> kw ''role'' = None"
    then show "(\<exists>m. validate now UserCreate kw = Inr m) = (8 \<le> length p \<and> length p \<le> 128)"
      using assms by (auto simp: validate_succeeds_iff UserCreate_errors)
  qed
qed

theorem UserCreate_password_witness:
  "(\<exists>es. validate 0 UserCreate
            [''email'' \<mapsto> PyStr ''user@example.com'', ''password'' \<mapsto> PyStr ''1234567'',
             ''full_name'' \<mapsto> PyStr ''Siti'', ''phone'' \<mapsto> PyStr ''0812''] = Inl es
          \<and> (''password'', string_too_short) \<in> set es)
   \<and> (\<exists>m. validate 0 UserCreate
            [''email'' \<mapsto> PyStr ''user@example.com'', ''password'' \<mapsto> PyStr ''12345678'',
             ''full_name'' \<mapsto> PyStr ''Siti'', ''phone'' \<mapsto> PyStr ''0812''] = Inr m)
   \<and> (\<exists>es. validate 0 UserCreate
            [''email'' \<mapsto> PyStr ''user@example.com'', ''password'' \<mapsto> PyStr (replicate 129 CHR ''x''),
             ''full_name'' \<mapsto> PyStr ''Siti'', ''phone'' \<mapsto> PyStr ''0812''] = Inl es
          \<and> (''password'', string_too_long) \<in> set es)
   \<and> (\<exists>m. validate 0 UserCreate
            [''email'' \<mapsto> PyStr ''user@example.com'', ''password'' \<mapsto> PyStr (replicate 128 CHR ''x''),
             ''full_name'' \<mapsto> PyStr ''Siti'', ''phone'' \<mapsto> PyStr ''0812''] = Inr m)"
  using UserCreate_password [of "[''email'' \<mapsto> PyStr ''user@example.com'', ''password'' \<mapsto> PyStr ''1234567'',
             ''full_name'' \<mapsto> PyStr ''Siti'', ''phone'' \<mapsto> PyStr ''0812'']" "''1234567''" 0
             "''user@example.com''" "''Siti''" "''0812''"]
    UserCreate_password [of "[''email'' \<mapsto> PyStr ''user@example.com'', ''password'' \<mapsto> PyStr ''12345678'',
             ''full_name'' \<mapsto> PyStr ''Siti'', ''phone'' \<mapsto> PyStr ''0812'']" "''12345678''" 0
             "''user@example.com''" "''Siti''" "''0812''"]
    UserCreate_password [of "[''email'' \<mapsto> PyStr ''user@example.com'', ''password'' \<mapsto> PyStr (replicate 129 CHR ''x''),
             ''full_name'' \<mapsto> PyStr ''Siti'', ''phone'' \<mapsto> PyStr ''0812'']" "replicate 129 CHR ''x''" 0
             "''user@example.com''" "''Siti''" "''0812''"]
    UserCreate_password [of "[''email'' \<mapsto> PyStr ''user@example.com'', ''password'' \<mapsto> PyStr (replicate 128 CHR ''x''),
             ''full_name'' \<mapsto> PyStr ''Siti'', ''phone'' \<mapsto> PyStr ''0812'']" "replicate 128 CHR ''x''" 0
             "''user@example.com''" "''Siti''" "''0812''"]
  by simp

subsection \<open>Login\<close>

lemma UserLogin_errors:
  assumes "kw ''email'' = Some (PyStr a)" and "kw ''password'' = Some (PyStr p)"
  shows "field_errors now UserLogin kw =
           (if 255 < length a then [(''email'', string_too_long)] else []) @
           (if 128 < length p then [(''password'', string_too_long)] else [])"
  using assms
  by (simp add: UserLogin_def FieldInfo_def validate_field_def check_str_def)

text \<open>
  C9. A \<^verbatim>\<open>UserLogin\<close> input with a string email and a string password is accepted if and
  only if the email has at most 255 and the password at most 128 characters: there is no
  minimum length, so the empty password passes, and no pattern is checked on the email.
\<close>

theorem UserLogin_no_minimum:
  assumes "kw ''email'' = Some (PyStr a)" and "kw ''password'' = Some (PyStr p)"
  shows "(\<exists>m. validate now UserLogin kw = Inr m) = (length a \<le> 255 \<and> length p \<le> 128)"
  using assms by (auto simp: validate_succeeds_iff UserLogin_errors)

theorem UserLogin_no_minimum_witness:
  "(\<exists>m. validate 0 UserLogin [''email'' \<mapsto> PyStr ''not-an-email'', ''password'' \<mapsto> PyStr ''''] = Inr m)
   \<and> (\<exists>m. validate 0 UserLogin [''email'' \<mapsto> PyStr '''', ''password'' \<mapsto> PyStr ''abc''] = Inr m)
   \<and> \<not> (\<exists>m. validate 0 UserLogin
               [''email'' \<mapsto> PyStr ''a@b.c'', ''password'' \<mapsto> PyStr (replicate 129 CHR ''x'')] = Inr m)"
  using UserLogin_no_minimum [of "[''email'' \<mapsto> PyStr ''not-an-email'', ''password'' \<mapsto> PyStr '''']"
      "''not-an-email''" "''''" 0]
    UserLogin_no_minimum [of "[''email'' \<mapsto> PyStr '''', ''password'' \<mapsto> PyStr ''abc'']" "''''" "''abc''" 0]
    UserLogin_no_minimum [of "[''email'' \<mapsto> PyStr ''a@b.c'', ''password'' \<mapsto> PyStr (replicate 129 CHR ''x'')]"
      "''a@b.c''" "replicate 129 CHR ''x''" 0]
  by simp

subsection \<open>Email\<close>

text \<open>
  C1. The pattern is declared on the column \<^verbatim>\<open>User.email\<close> only: it rejects
  \<^verbatim>\<open>not-an-email\<close> and accepts \<^verbatim>\<open>user@example.com\<close>. \<^verbatim>\<open>UserCreate.email\<close> declares
  \<^verbatim>\<open>max_length=255\<close> and no pattern, so a \<^verbatim>\<open>UserCreate\<close> with the email \<^verbatim>\<open>not-an-email\<close> is
  constructed without error, like one with \<^verbatim>\<open>user@example.com\<close>.
\<close>

theorem UserCreate_email_unchecked:
  "check_value (User ! 1) (PyStr ''not-an-email'') = Some string_pattern_mismatch
   \<and> check_value (User ! 1) (PyStr ''user@example.com'') = None
   \<and> check_value (UserCreate ! 0) (PyStr ''not-an-email'') = None
   \<and> (\<exists>m. validate now UserCreate
             [''email'' \<mapsto> PyStr ''not-an-email'', ''password'' \<mapsto> PyStr ''12345678'',
              ''full_name'' \<mapsto> PyStr ''Siti'', ''phone'' \<mapsto> PyStr ''0812''] = Inr m)
   \<and> (\<exists>m. validate now UserCreate
             [''email'' \<mapsto> PyStr ''user@example.com'', ''password'' \<mapsto> PyStr ''12345678'',
              ''full_name'' \<mapsto> PyStr ''Siti'', ''phone'' \<mapsto> PyStr ''0812''] = Inr m)"
  by (simp add: validate_succeeds_iff User_def UserCreate_def FieldInfo_def Optional_def
      validate_field_def check_str_def get_default_def email_regex_def alnum_def)


subsection \<open>Money\<close>











section \<open>Properties of updates\<close>

lemma setattrs_other: "n \<notin> fst ` set xs \<Longrightarrow> setattrs r xs n = r n"
  by (induction xs arbitrary: r) auto

lemma setattrs_same:
  "(n, v) \<in> set xs \<Longrightarrow> \<forall>v'. (n, v') \<in> set xs \<longrightarrow> v' = v \<Longrightarrow> setattrs r xs n = Some v"
proof (induction xs arbitrary: r)
  case Nil
  then show ?case by simp
next
  case (Cons x xs)
  obtain n' v' where x: "x = (n', v')" by (cases x)
  have all: "\<forall>w. (n, w) \<in> set xs \<longrightarrow> w = v"
    using Cons.prems(2) by auto
  show ?case
  proof (cases "n \<in> fst ` set xs")
    case True
    then obtain w where w: "(n, w) \<in> set xs" by force
    with all have "(n, v) \<in> set xs" by blast
    from Cons.IH [OF this all] show ?thesis by (simp add: x)
  next
    case False
    then have "(n, v) \<notin> set xs" by force
    with Cons.prems(1) x have "n' = n" "v' = v" by auto
    with False x show ?thesis by (simp add: setattrs_other)
  qed
qed

lemma dump_names:
  "validate now fs kw = Inr m \<Longrightarrow> (n, v) \<in> set (model_dump_exclude_unset m) \<Longrightarrow>
     n \<in> fname ` set fs \<and> kw n \<noteq> None"
  by (auto simp: model_dump_exclude_unset_def dest!: validate_Inr)

lemma validated_names:
  assumes "validate now fs kw = Inr m"
  shows "fst ` set (fields_values m) \<subseteq> fname ` set fs" and "set (fields_set m) \<subseteq> fname ` set fs"
proof -
  note vm = validate_Inr [OF assms]
  show "fst ` set (fields_values m) \<subseteq> fname ` set fs"
  proof
    fix n assume "n \<in> fst ` set (fields_values m)"
    then obtain v where "(n, v) \<in> set (field_values now fs kw)" using vm by force
    from field_values_sound [OF this] show "n \<in> fname ` set fs" by force
  qed
  show "set (fields_set m) \<subseteq> fname ` set fs" using vm by auto
qed

lemma update_absent:
  assumes "validate now fs kw = Inr m" and "kw n = None \<or> n \<notin> fname ` set fs"
  shows "setattrs r (model_dump_exclude_unset m) n = r n"
proof -
  have "n \<notin> fst ` set (model_dump_exclude_unset m)"
    using dump_names [OF assms(1)] assms(2) by force
  then show ?thesis by (simp add: setattrs_other)
qed

lemma update_undeclared:
  assumes "validate now fs kw = Inr m" and "n \<notin> fname ` set fs"
  shows "setattrs r (fields_values m) n = r n"
  using validated_names(1) [OF assms(1)] assms(2) by (auto intro: setattrs_other)

lemma update_present:
  assumes m: "validate now fs kw = Inr m" and "f \<in> set fs" and "kw (fname f) = Some v"
  shows "setattrs r (model_dump_exclude_unset m) (fname f) = Some v \<and> check_value f v = None"
proof -
  note vm = validate_Inr [OF m]
  from vm assms(2) obtain w where w: "validate_field now f kw = Inr w"
    using field_errors_Nil by blast
  from validate_field_given [OF assms(3) w] have wv: "w = v" and ok: "check_value f v = None"
    by simp_all
  have in_dump: "(fname f, v) \<in> set (model_dump_exclude_unset m)"
    using field_values_complete [OF assms(2) w] vm assms(2,3) wv
    by (auto simp: model_dump_exclude_unset_def)
  have uniq: "\<forall>v'. (fname f, v') \<in> set (model_dump_exclude_unset m) \<longrightarrow> v' = v"
  proof (intro allI impI)
    fix v' assume that: "(fname f, v') \<in> set (model_dump_exclude_unset m)"
    from that vm have "(fname f, v') \<in> set (field_values now fs kw)"
      by (auto simp: model_dump_exclude_unset_def)
    then obtain g where "g \<in> set fs" "fname g = fname f" "validate_field now g kw = Inr v'"
      using field_values_sound by blast
    with assms(3) show "v' = v" using validate_field_given [of kw g v now v'] by simp
  qed
  from setattrs_same [OF in_dump uniq] ok show ?thesis by simp
qed

subsection \<open>The type of a service\<close>

lemma ServiceUpdate_names:
  "fname ` set ServiceUpdate =
     {''title'', ''description'', ''price'', ''duration_days'', ''max_capacity'', ''includes'',
      ''requirements'', ''is_active''}"
  by (simp add: ServiceUpdate_def FieldInfo_def Optional_def)

text \<open>
  C10. \<^verbatim>\<open>ServiceUpdate\<close> declares no field \<^verbatim>\<open>service_type\<close>: a validated \<^verbatim>\<open>ServiceUpdate\<close>
  never carries one, whatever the input holds under that key, and assigning its fields
  to a stored service (those that were set, or all of them) leaves the service's
  \<^verbatim>\<open>service_type\<close> as it was.
\<close>

theorem ServiceUpdate_keeps_service_type:
  "''service_type'' \<notin> fname ` set ServiceUpdate
   \<and> (validate now ServiceUpdate kw = Inr m \<longrightarrow>
        ''service_type'' \<notin> fst ` set (fields_values m) \<and> ''service_type'' \<notin> set (fields_set m)
        \<and> setattrs r (model_dump_exclude_unset m) ''service_type'' = r ''service_type''
        \<and> setattrs r (fields_values m) ''service_type'' = r ''service_type'')"
proof -
  have n: "''service_type'' \<notin> fname ` set ServiceUpdate"
    unfolding ServiceUpdate_names by simp
  have v: "''service_type'' \<notin> fst ` set (fields_values m) \<and> ''service_type'' \<notin> set (fields_set m)
        \<and> setattrs r (model_dump_exclude_unset m) ''service_type'' = r ''service_type''
        \<and> setattrs r (fields_values m) ''service_type'' = r ''service_type''"
    if m: "validate now ServiceUpdate kw = Inr m"
    using validated_names [OF m] n update_absent [OF m, of "''service_type''" r]
      update_undeclared [OF m n, of r]
    by blast
  from n v show ?thesis by blast
qed

theorem ServiceUpdate_keeps_service_type_witness:
  "\<exists>m. validate 0 ServiceUpdate
          [''title'' \<mapsto> PyStr ''New'', ''service_type'' \<mapsto> PyStr ''badal_umrah''] = Inr m
       \<and> setattrs [''title'' \<mapsto> PyStr ''Old'', ''service_type'' \<mapsto> PyStr ''badal_haji'']
            (model_dump_exclude_unset m) ''service_type'' = Some (PyStr ''badal_haji'')
       \<and> setattrs [''title'' \<mapsto> PyStr ''Old'', ''service_type'' \<mapsto> PyStr ''badal_haji'']
            (model_dump_exclude_unset m) ''title'' = Some (PyStr ''New'')"
proof -
  let ?r = "[''title'' \<mapsto> PyStr ''Old'', ''service_type'' \<mapsto> PyStr ''badal_haji'']"
  let ?kw = "[''title'' \<mapsto> PyStr ''New'', ''service_type'' \<mapsto> PyStr ''badal_umrah'']"
  have "field_errors 0 ServiceUpdate ?kw = []"
    by (simp add: ServiceUpdate_def FieldInfo_def Optional_def validate_field_def get_default_def
        check_str_def)
  then obtain m where m: "validate 0 ServiceUpdate ?kw = Inr m"
    using validate_succeeds_iff [of 0 ServiceUpdate ?kw] by blast
  have t: "(Optional ''title'' T_str)\<lparr>default := Some PyNone, max_length := Some 200\<rparr> \<in> set ServiceUpdate"
    by (simp add: ServiceUpdate_def)
  from ServiceUpdate_keeps_service_type [of 0 ?kw m ?r] m
  have "setattrs ?r (model_dump_exclude_unset m) ''service_type'' = Some (PyStr ''badal_haji'')"
    by simp
  moreover from update_present [OF m t, of "PyStr ''New''" ?r]
  have "setattrs ?r (model_dump_exclude_unset m) ''title'' = Some (PyStr ''New'')"
    by (simp add: Optional_def FieldInfo_def)
  ultimately show ?thesis using m by blast
qed

subsection \<open>Derived fields of a provider profile\<close>

lemma new_row_default:
  assumes "validate now view kw = Inr m" and "n \<notin> fname ` set view" and "server n = None"
  shows "new_row now table (server ++ map_of (fields_values m)) n =
           (case find (\<lambda>f. fname f = n) table of None \<Rightarrow> None | Some f \<Rightarrow> get_default now f)"
proof -
  from validated_names(1) [OF assms(1)] assms(2) have "n \<notin> fst ` set (fields_values m)" by blast
  then have "map_of (fields_values m) n = None" by (simp add: map_of_eq_None_iff)
  with assms(3) have e: "(server ++ map_of (fields_values m)) n = None" by (simp add: map_add_def)
  show ?thesis by (simp add: new_row_def e split: option.splits)
qed

lemma ProviderProfile_view_names:
  "fname ` set ProviderProfileCreate =
     {''business_name'', ''description'', ''address'', ''city'', ''province'', ''postal_code'',
      ''license_number'', ''years_experience''}"
  "fname ` set ProviderProfileUpdate =
     {''business_name'', ''description'', ''address'', ''city'', ''province'', ''postal_code'',
      ''license_number'', ''years_experience'', ''is_available'', ''gallery_images'',
      ''certificates''}"
  by (simp_all add: ProviderProfileCreate_def ProviderProfileUpdate_def FieldInfo_def Optional_def)

lemma ProviderProfile_derived_defaults:
  "(case find (\<lambda>f. fname f = ''average_rating'') ProviderProfile of
      None \<Rightarrow> None | Some f \<Rightarrow> get_default now f) = Some (PyDecimal (Decimal False [0] 0))"
  "(case find (\<lambda>f. fname f = ''total_reviews'') ProviderProfile of
      None \<Rightarrow> None | Some f \<Rightarrow> get_default now f) = Some (PyInt 0)"
  "(case find (\<lambda>f. fname f = ''total_completed_services'') ProviderProfile of
      None \<Rightarrow> None | Some f \<Rightarrow> get_default now f) = Some (PyInt 0)"
  by (simp_all add: ProviderProfile_def FieldInfo_def Optional_def get_default_def)

text \<open>
  C3. Neither \<^verbatim>\<open>ProviderProfileCreate\<close> nor \<^verbatim>\<open>ProviderProfileUpdate\<close> declares
  \<^verbatim>\<open>average_rating\<close>, \<^verbatim>\<open>total_reviews\<close> or \<^verbatim>\<open>total_completed_services\<close>. Assigning the
  fields of a validated \<^verbatim>\<open>ProviderProfileUpdate\<close> to a stored profile (those that were set,
  or all of them) leaves the three columns as they were, and a \<^verbatim>\<open>ProviderProfile\<close>
  constructed from the fields of a validated \<^verbatim>\<open>ProviderProfileCreate\<close>, together with
  arguments of the server's that do not name them, has them at the defaults the table
  declares: \<^verbatim>\<open>Decimal("0")\<close>, 0 and 0. A value the input holds under one of these keys is
  ignored.
\<close>

theorem ProviderProfile_derived_fields:
  assumes "n = ''average_rating'' \<or> n = ''total_reviews'' \<or> n = ''total_completed_services''"
  shows "n \<notin> fname ` set ProviderProfileCreate \<and> n \<notin> fname ` set ProviderProfileUpdate
       \<and> (validate now ProviderProfileUpdate kw = Inr m \<longrightarrow>
            n \<notin> fst ` set (fields_values m)
            \<and> setattrs r (model_dump_exclude_unset m) n = r n
            \<and> setattrs r (fields_values m) n = r n)
       \<and> (validate now ProviderProfileCreate kw = Inr m \<and> server n = None \<longrightarrow>
            new_row now ProviderProfile (server ++ map_of (fields_values m)) n =
              (if n = ''average_rating'' then Some (PyDecimal (Decimal False [0] 0))
               else Some (PyInt 0)))"
proof -
  have c: "n \<notin> fname ` set ProviderProfileCreate" and u: "n \<notin> fname ` set ProviderProfileUpdate"
    unfolding ProviderProfile_view_names using assms by auto
  have up: "n \<notin> fst ` set (fields_values m)
            \<and> setattrs r (model_dump_exclude_unset m) n = r n
            \<and> setattrs r (fields_values m) n = r n"
    if m: "validate now ProviderProfileUpdate kw = Inr m"
    using validated_names(1) [OF m] u update_absent [OF m, of n r] update_undeclared [OF m u, of r]
    by blast
  have cr: "new_row now ProviderProfile (server ++ map_of (fields_values m)) n =
              (if n = ''average_rating'' then Some (PyDecimal (Decimal False [0] 0))
               else Some (PyInt 0))"
    if m: "validate now ProviderProfileCreate kw = Inr m" and s: "server n = None"
    unfolding new_row_default [of now ProviderProfileCreate kw m n server ProviderProfile, OF m c s]
    using assms ProviderProfile_derived_defaults [of now] by auto
  from c u up cr show ?thesis by blast
qed

theorem ProviderProfile_derived_fields_witness:
  "(\<exists>m. validate 0 ProviderProfileCreate
            [''business_name'' \<mapsto> PyStr ''Al Amin'', ''description'' \<mapsto> PyStr ''Badal'',
             ''address'' \<mapsto> PyStr ''Jl. Raya 1'', ''city'' \<mapsto> PyStr ''Bandung'',
             ''province'' \<mapsto> PyStr ''Jawa Barat'', ''postal_code'' \<mapsto> PyStr ''40111'',
             ''average_rating'' \<mapsto> PyDecimal (Decimal False [5] 0)] = Inr m
          \<and> new_row 0 ProviderProfile ([''user_id'' \<mapsto> PyInt 1] ++ map_of (fields_values m))
               ''average_rating'' = Some (PyDecimal (Decimal False [0] 0)))
   \<and> (\<exists>m. validate 0 ProviderProfileUpdate
            [''city'' \<mapsto> PyStr ''Jakarta'', ''total_reviews'' \<mapsto> PyInt 99] = Inr m
          \<and> setattrs [''city'' \<mapsto> PyStr ''Bandung'', ''total_reviews'' \<mapsto> PyInt 12]
               (model_dump_exclude_unset m) ''total_reviews'' = Some (PyInt 12))"
proof -
  let ?kw = "[''business_name'' \<mapsto> PyStr ''Al Amin'', ''description'' \<mapsto> PyStr ''Badal'',
             ''address'' \<mapsto> PyStr ''Jl. Raya 1'', ''city'' \<mapsto> PyStr ''Bandung'',
             ''province'' \<mapsto> PyStr ''Jawa Barat'', ''postal_code'' \<mapsto> PyStr ''40111'',
             ''average_rating'' \<mapsto> PyDecimal (Decimal False [5] 0)]"
  let ?srv = "[''user_id'' \<mapsto> PyInt 1]"
  let ?r = "[''city'' \<mapsto> PyStr ''Bandung'', ''total_reviews'' \<mapsto> PyInt 12]"
  let ?ukw = "[''city'' \<mapsto> PyStr ''Jakarta'', ''total_reviews'' \<mapsto> PyInt 99]"
  have "field_errors 0 ProviderProfileCreate ?kw = []"
    by (simp add: ProviderProfileCreate_def FieldInfo_def Optional_def validate_field_def
        get_default_def check_str_def)
  then obtain m1 where m1: "validate 0 ProviderProfileCreate ?kw = Inr m1"
    using validate_succeeds_iff [of 0 ProviderProfileCreate ?kw] by blast
  have "field_errors 0 ProviderProfileUpdate ?ukw = []"
    by (simp add: ProviderProfileUpdate_def FieldInfo_def Optional_def validate_field_def
        get_default_def check_str_def)
  then obtain m2 where m2: "validate 0 ProviderProfileUpdate ?ukw = Inr m2"
    using validate_succeeds_iff [of 0 ProviderProfileUpdate ?ukw] by blast
  from ProviderProfile_derived_fields [where n = "''average_rating''" and now = 0 and r = ?r
      and kw = ?kw and m = m1 and server = ?srv] m1
  have a: "new_row 0 ProviderProfile (?srv ++ map_of (fields_values m1)) ''average_rating''
             = Some (PyDecimal (Decimal False [0] 0))"
    by simp
  from ProviderProfile_derived_fields [where n = "''total_reviews''" and now = 0 and r = ?r
      and kw = ?ukw and m = m2 and server = ?srv] m2
  have b: "setattrs ?r (model_dump_exclude_unset m2) ''total_reviews'' = Some (PyInt 12)"
    by simp
  from a b m1 m2 show ?thesis by blast
qed

subsection \<open>Update shapes\<close>

lemma same_constraints_User: "same_constraints UserUpdate UserCreate"
  by (simp add: same_constraints_def constraints_def UserUpdate_def UserCreate_def FieldInfo_def
      Optional_def)

lemma same_constraints_ProviderProfile:
  "same_constraints ProviderProfileUpdate ProviderProfileCreate"
  by (simp add: same_constraints_def constraints_def ProviderProfileUpdate_def
      ProviderProfileCreate_def FieldInfo_def Optional_def)

lemma same_constraints_Service: "same_constraints ServiceUpdate ServiceCreate"
  by (simp add: same_constraints_def constraints_def ServiceUpdate_def ServiceCreate_def FieldInfo_def
      Optional_def)

lemma same_constraints_Booking: "same_constraints BookingUpdate BookingCreate"
  by (simp add: same_constraints_def constraints_def BookingUpdate_def BookingCreate_def FieldInfo_def
      Optional_def)

lemma same_constraints_Review: "same_constraints ReviewUpdate ReviewCreate"
  by (simp add: same_constraints_def constraints_def ReviewUpdate_def ReviewCreate_def FieldInfo_def
      Optional_def)

lemma same_constraints_BlogPost: "same_constraints BlogPostUpdate BlogPostCreate"
  by (simp add: same_constraints_def constraints_def BlogPostUpdate_def BlogPostCreate_def FieldInfo_def
      Optional_def)

lemma same_constraints_SystemSettings: "same_constraints SystemSettingsUpdate SystemSettingsCreate"
  by (simp add: same_constraints_def constraints_def SystemSettingsUpdate_def
      SystemSettingsCreate_def FieldInfo_def Optional_def)

lemma same_constraints_views: "(U, C) \<in> set Update_views \<Longrightarrow> same_constraints U C"
  using same_constraints_User same_constraints_ProviderProfile same_constraints_Service
    same_constraints_Booking same_constraints_Review same_constraints_BlogPost
    same_constraints_SystemSettings
  by (auto simp: Update_views_def)

lemma same_constraintsD:
  "same_constraints U C \<Longrightarrow> f \<in> set U \<Longrightarrow> g \<in> set C \<Longrightarrow> fname f = fname g \<Longrightarrow>
     constraints f = constraints g"
  by (auto simp: same_constraints_def list_all_iff)

lemma check_value_constraints:
  "constraints f = constraints g \<Longrightarrow> v \<noteq> PyNone \<Longrightarrow> check_value f v = check_value g v"
  by (cases v)
    (auto simp: constraints_def check_str_def check_int_def check_decimal_def
      split: ftype.splits option.splits)

lemma all_optional:
  "list_all (\<lambda>f. default f \<noteq> None) UserUpdate"
  "list_all (\<lambda>f. default f \<noteq> None) ProviderProfileUpdate"
  "list_all (\<lambda>f. default f \<noteq> None) ServiceUpdate"
  "list_all (\<lambda>f. default f \<noteq> None) BookingUpdate"
  "list_all (\<lambda>f. default f \<noteq> None) ReviewUpdate"
  "list_all (\<lambda>f. default f \<noteq> None) BlogPostUpdate"
  by (simp_all add: UserUpdate_def ProviderProfileUpdate_def ServiceUpdate_def BookingUpdate_def
      ReviewUpdate_def BlogPostUpdate_def FieldInfo_def Optional_def)

lemma all_optional_views:
  "(U, C) \<in> set Update_views \<Longrightarrow> U \<noteq> SystemSettingsUpdate \<Longrightarrow>
     list_all (\<lambda>f. default f \<noteq> None) U"
  using all_optional by (auto simp: Update_views_def)

lemma field_errors_empty_input:
  "list_all (\<lambda>f. default f \<noteq> None) fs \<Longrightarrow> field_errors now fs Map.empty = []"
  by (induction fs) (auto simp: validate_field_def get_default_def split: option.splits)

text \<open>
  C2, as stated, fails in two places. \<^verbatim>\<open>SystemSettingsUpdate.value\<close> is declared
  \<^verbatim>\<open>value: str = Field(max_length=2000)\<close>, with no default: an update that does not give it
  is rejected. And an Update field, being \<^verbatim>\<open>Optional\<close>, accepts an explicit \<^verbatim>\<open>None\<close> that
  the same field of the Create shape refuses.
\<close>

theorem SystemSettingsUpdate_value_required:
  "validate 0 SystemSettingsUpdate Map.empty = Inl [(''value'', missing)]
   \<and> validate 0 SystemSettingsUpdate [''description'' \<mapsto> PyStr ''Site name'']
       = Inl [(''value'', missing)]
   \<and> check_value (ServiceUpdate ! 0) PyNone = None
   \<and> check_value (ServiceCreate ! 0) PyNone = Some none_not_allowed"
  by (simp add: validate_def SystemSettingsUpdate_def ServiceUpdate_def ServiceCreate_def
      FieldInfo_def Optional_def validate_field_def get_default_def check_str_def)

text \<open>
  C2, amended. Every Update shape but \<^verbatim>\<open>SystemSettingsUpdate\<close> has a default for every
  field, so the empty input is accepted. For every Update shape, when the fields that
  were set in a validated update are assigned to an entity: a field absent from the
  input keeps its stored value; a declared field given in the input takes the given
  value, which has passed the field's checks; and a field that the Create shape of the
  same entity declares too puts the same checks on every value other than \<^verbatim>\<open>None\<close>.
\<close>

theorem Update_views_partial_update:
  assumes "(U, C) \<in> set Update_views"
  shows "(U \<noteq> SystemSettingsUpdate \<longrightarrow>
            list_all (\<lambda>f. default f \<noteq> None) U \<and> (\<exists>m. validate now U Map.empty = Inr m))
       \<and> (validate now U kw = Inr m \<longrightarrow>
            (\<forall>n. kw n = None \<longrightarrow> setattrs r (model_dump_exclude_unset m) n = r n) \<and>
            (\<forall>f \<in> set U. \<forall>v. kw (fname f) = Some v \<longrightarrow>
               setattrs r (model_dump_exclude_unset m) (fname f) = Some v \<and>
               check_value f v = None))
       \<and> (\<forall>f \<in> set U. \<forall>g \<in> set C. fname f = fname g \<longrightarrow>
            (\<forall>v. v \<noteq> PyNone \<longrightarrow> check_value f v = check_value g v))"
proof (intro conjI impI allI ballI)
  assume "U \<noteq> SystemSettingsUpdate"
  with assms show opt: "list_all (\<lambda>f. default f \<noteq> None) U"
    by (rule all_optional_views)
  then show "\<exists>m. validate now U Map.empty = Inr m"
    by (simp add: validate_succeeds_iff field_errors_empty_input)
next
  fix n
  assume "validate now U kw = Inr m" and "kw n = None"
  then show "setattrs r (model_dump_exclude_unset m) n = r n" by (simp add: update_absent)
next
  fix f v
  assume u: "validate now U kw = Inr m" and f: "f \<in> set U" and v: "kw (fname f) = Some v"
  from update_present [OF u f v, of r]
  show "setattrs r (model_dump_exclude_unset m) (fname f) = Some v" and "check_value f v = None"
    by simp_all
next
  fix f g v
  assume "f \<in> set U" and "g \<in> set C" and "fname f = fname g" and "v \<noteq> PyNone"
  with same_constraints_views [OF assms] show "check_value f v = check_value g v"
    by (blast intro: check_value_constraints same_constraintsD)
qed

theorem Update_views_partial_update_witness:
  "(ReviewUpdate, ReviewCreate) \<in> set Update_views
   \<and> (\<exists>m. validate 0 ReviewUpdate Map.empty = Inr m)
   \<and> (\<exists>m. validate 0 ReviewUpdate [''rating'' \<mapsto> PyInt 5] = Inr m
          \<and> setattrs [''rating'' \<mapsto> PyInt 3, ''comment'' \<mapsto> PyStr ''Good'']
               (model_dump_exclude_unset m) ''comment'' = Some (PyStr ''Good'')
          \<and> setattrs [''rating'' \<mapsto> PyInt 3, ''comment'' \<mapsto> PyStr ''Good'']
               (model_dump_exclude_unset m) ''rating'' = Some (PyInt 5))
   \<and> check_value (ReviewUpdate ! 0) (PyInt 6) = check_value (ReviewCreate ! 1) (PyInt 6)
   \<and> check_value (ReviewUpdate ! 0) (PyInt 6) = Some less_than_equal"
proof -
  let ?r = "[''rating'' \<mapsto> PyInt 3, ''comment'' \<mapsto> PyStr ''Good'']"
  let ?kw = "[''rating'' \<mapsto> PyInt 5]"
  have mem: "(ReviewUpdate, ReviewCreate) \<in> set Update_views"
    by (simp add: Update_views_def)
  have ne: "ReviewUpdate \<noteq> SystemSettingsUpdate"
    by (simp add: ReviewUpdate_def SystemSettingsUpdate_def FieldInfo_def Optional_def)
  have "field_errors 0 ReviewUpdate ?kw = []"
    by (simp add: ReviewUpdate_def FieldInfo_def Optional_def validate_field_def get_default_def
        check_int_def)
  then obtain m where m: "validate 0 ReviewUpdate ?kw = Inr m"
    using validate_succeeds_iff [of 0 ReviewUpdate ?kw] by blast
  note T = Update_views_partial_update [OF mem, where now = 0 and r = ?r and kw = ?kw and m = m]
  have f0: "ReviewUpdate ! 0 \<in> set ReviewUpdate" "fname (ReviewUpdate ! 0) = ''rating''"
    by (simp_all add: ReviewUpdate_def Optional_def FieldInfo_def)
  have g1: "ReviewCreate ! 1 \<in> set ReviewCreate" "fname (ReviewCreate ! 1) = ''rating''"
    by (simp_all add: ReviewCreate_def Optional_def FieldInfo_def)
  from T ne have a: "\<exists>m. validate 0 ReviewUpdate Map.empty = Inr m" by blast
  from T m have frame: "\<forall>n. ?kw n = None \<longrightarrow> setattrs ?r (model_dump_exclude_unset m) n = ?r n"
    and over: "\<forall>f \<in> set ReviewUpdate. \<forall>v. ?kw (fname f) = Some v \<longrightarrow>
                 setattrs ?r (model_dump_exclude_unset m) (fname f) = Some v \<and>
                 check_value f v = None"
    by blast+
  from T have same: "\<forall>f \<in> set ReviewUpdate. \<forall>g \<in> set ReviewCreate. fname f = fname g \<longrightarrow>
            (\<forall>v. v \<noteq> PyNone \<longrightarrow> check_value f v = check_value g v)"
    by blast
  from frame [rule_format, of "''comment''"]
  have b: "setattrs ?r (model_dump_exclude_unset m) ''comment'' = Some (PyStr ''Good'')"
    by simp
  from over [rule_format, OF f0(1), of "PyInt 5"]
  have c: "setattrs ?r (model_dump_exclude_unset m) ''rating'' = Some (PyInt 5)"
    by (simp add: f0(2))
  have fg: "fname (ReviewUpdate ! 0) = fname (ReviewCreate ! 1)"
    unfolding f0(2) g1(2) ..
  have nn: "PyInt 6 \<noteq> PyNone" by simp
  have d: "check_value (ReviewUpdate ! 0) (PyInt 6) = check_value (ReviewCreate ! 1) (PyInt 6)"
    by (rule same [rule_format, OF f0(1) g1(1) fg nn])
  have e: "check_value (ReviewUpdate ! 0) (PyInt 6) = Some less_than_equal"
    by (simp add: ReviewUpdate_def Optional_def FieldInfo_def check_int_def)
  from mem a b c d e m show ?thesis by blast
qed


section \<open>Properties of insertion\<close>

lemma column_mem:
  "(v \<in> set (column n rows)) = (v \<noteq> PyNone \<and> (\<exists>r \<in> set rows. r n = Some v))"
  by (induction rows) (auto split: option.splits)

lemma column_append:
  "column n (rows @ [r]) =
     column n rows @ (case r n of None \<Rightarrow> [] | Some v \<Rightarrow> if v = PyNone then [] else [v])"
  by (induction rows) (auto split: option.splits)

lemma insert_row_cases:
  "insert_row table rows r = (None, rows @ [r]) \<and> violated table rows r = [] \<or>
   (\<exists>n. insert_row table rows r = (Some (IntegrityError n), rows))"
  by (auto simp: insert_row_def split: list.splits)

lemma insert_row_refused:
  "fst (insert_row table rows r) \<noteq> None \<Longrightarrow> snd (insert_row table rows r) = rows"
  using insert_row_cases [of table rows r] by auto

lemma insert_row_conflict:
  assumes "f \<in> set table" and "unique f \<or> primary_key f"
    and "r (fname f) = Some v" and "v \<noteq> PyNone"
    and "r' \<in> set rows" and "r' (fname f) = Some v"
  shows "\<exists>n. insert_row table rows r = (Some (IntegrityError n), rows)"
proof -
  have "duplicates f r r'" using assms(3,4,6) by (simp add: duplicates_def)
  with assms(5) have "list_ex (duplicates f r) rows" by (auto simp: list_ex_iff)
  with assms(1,2) have "fname f \<in> set (violated table rows r)"
    by (auto simp: violated_def)
  then have "violated table rows r \<noteq> []" by auto
  then show ?thesis by (auto simp: insert_row_def split: list.splits)
qed

lemma insert_row_distinct:
  assumes "f \<in> set table" and "unique f \<or> primary_key f"
    and "distinct (column (fname f) rows)"
  shows "distinct (column (fname f) (snd (insert_row table rows r)))"
proof -
  from insert_row_cases [of table rows r] show ?thesis
  proof
    assume ok: "insert_row table rows r = (None, rows @ [r]) \<and> violated table rows r = []"
    then have "fname f \<notin> set (violated table rows r)" by simp
    with assms(1,2) have nodup: "\<not> list_ex (duplicates f r) rows"
      by (auto simp: violated_def)
    have "v \<notin> set (column (fname f) rows)" if "r (fname f) = Some v" and "v \<noteq> PyNone" for v
    proof
      assume "v \<in> set (column (fname f) rows)"
      then obtain r' where "r' \<in> set rows" "r' (fname f) = Some v"
        by (auto simp: column_mem)
      with that have "list_ex (duplicates f r) rows"
        by (auto simp: list_ex_iff duplicates_def)
      with nodup show False by simp
    qed
    with assms(3) ok show ?thesis
      by (auto simp: column_append split: option.splits)
  next
    assume "\<exists>n. insert_row table rows r = (Some (IntegrityError n), rows)"
    with assms(3) show ?thesis by auto
  qed
qed

lemma field_values_distinct:
  "distinct (map fname fs) \<Longrightarrow> distinct (map fst (field_values now fs kw))"
proof (induction fs)
  case Nil
  then show ?case by simp
next
  case (Cons f fs)
  have "fname f \<notin> fst ` set (field_values now fs kw)"
  proof
    assume "fname f \<in> fst ` set (field_values now fs kw)"
    then obtain v where "(fname f, v) \<in> set (field_values now fs kw)" by force
    from field_values_sound [OF this] obtain g where "g \<in> set fs" "fname g = fname f"
      by blast
    then have "fname f \<in> fname ` set fs" by (metis imageI)
    with Cons.prems show False by simp
  qed
  with Cons show ?case by (auto split: sum.splits)
qed

lemma new_row_given:
  assumes m: "validate now view kw = Inr m" and "f \<in> set view"
    and "distinct (map fname view)" and "kw (fname f) = Some v"
    and "fname f \<in> fname ` set table"
  shows "new_row now table (server ++ map_of (fields_values m)) (fname f) = Some v"
proof -
  note vm = validate_Inr [OF m]
  from vm assms(2) obtain w where w: "validate_field now f kw = Inr w"
    using field_errors_Nil by blast
  from validate_field_given [OF assms(4) w] have "w = v" by simp
  with field_values_complete [OF assms(2) w] vm
  have "(fname f, v) \<in> set (fields_values m)" by simp
  moreover have "distinct (map fst (fields_values m))"
    using field_values_distinct [OF assms(3)] vm by simp
  ultimately have "map_of (fields_values m) (fname f) = Some v" by simp
  then have e: "(server ++ map_of (fields_values m)) (fname f) = Some v" by simp
  from assms(5) obtain g where "find (\<lambda>g. fname g = fname f) table = Some g"
    by (cases "find (\<lambda>g. fname g = fname f) table") (auto simp: find_None_iff)
  then show ?thesis by (simp add: new_row_def e)
qed

subsection \<open>One review per booking\<close>

lemma Review_booking_id:
  "(FieldInfo ''booking_id'' T_int)\<lparr>foreign_key := Some ''bookings.id'', unique := True\<rparr> \<in> set Review"
  "FieldInfo ''booking_id'' T_int \<in> set ReviewCreate"
  "distinct (map fname ReviewCreate)"
  by (simp_all add: Review_def ReviewCreate_def FieldInfo_def Optional_def)

text \<open>
  C4. \<^verbatim>\<open>Review.booking_id\<close> is declared \<^verbatim>\<open>unique=True\<close>. When a review of booking \<open>b\<close> is
  stored, the insertion of another review of booking \<open>b\<close> is refused with an integrity
  error and the stored reviews stay as they were; so is the review constructed from a
  validated \<^verbatim>\<open>ReviewCreate\<close> that names booking \<open>b\<close>. A refused insertion changes nothing,
  and an insertion, refused or not, keeps the property that no two stored reviews have
  the same booking.
\<close>

theorem Review_unique_booking:
  "(r' \<in> set rows \<and> r' ''booking_id'' = Some (PyInt b) \<and> r ''booking_id'' = Some (PyInt b) \<longrightarrow>
      (\<exists>n. insert_row Review rows r = (Some (IntegrityError n), rows)))
   \<and> (r' \<in> set rows \<and> r' ''booking_id'' = Some (PyInt b) \<and>
      validate now ReviewCreate kw = Inr m \<and> kw ''booking_id'' = Some (PyInt b) \<longrightarrow>
      (\<exists>n. insert_row Review rows (new_row now Review (server ++ map_of (fields_values m)))
             = (Some (IntegrityError n), rows)))
   \<and> (fst (insert_row Review rows r) \<noteq> None \<longrightarrow> snd (insert_row Review rows r) = rows)
   \<and> (distinct (column ''booking_id'' rows) \<longrightarrow>
        distinct (column ''booking_id'' (snd (insert_row Review rows r))))"
proof -
  have conflict: "\<exists>n. insert_row Review rows x = (Some (IntegrityError n), rows)"
    if "r' \<in> set rows" and "r' ''booking_id'' = Some (PyInt b)"
      and "x ''booking_id'' = Some (PyInt b)" for x
    using insert_row_conflict [OF Review_booking_id(1), of x "PyInt b" r' rows] that
    by (simp add: FieldInfo_def)
  have built: "new_row now Review (server ++ map_of (fields_values m)) ''booking_id''
                 = Some (PyInt b)"
    if "validate now ReviewCreate kw = Inr m" and "kw ''booking_id'' = Some (PyInt b)"
    using new_row_given [OF that(1) Review_booking_id(2,3), of "PyInt b" Review server] that(2)
    by (simp add: FieldInfo_def Review_def Optional_def)
  have inv: "distinct (column ''booking_id'' (snd (insert_row Review rows r)))"
    if "distinct (column ''booking_id'' rows)"
    using insert_row_distinct [OF Review_booking_id(1), of rows r] that
    by (simp add: FieldInfo_def)
  from conflict built inv insert_row_refused [of Review rows r] show ?thesis by blast
qed

theorem Review_unique_booking_witness:
  "(\<exists>n. insert_row Review
           [[''booking_id'' \<mapsto> PyInt 7, ''reviewer_id'' \<mapsto> PyInt 3, ''rating'' \<mapsto> PyInt 4]]
           [''booking_id'' \<mapsto> PyInt 7, ''reviewer_id'' \<mapsto> PyInt 9, ''rating'' \<mapsto> PyInt 5]
         = (Some (IntegrityError n),
            [[''booking_id'' \<mapsto> PyInt 7, ''reviewer_id'' \<mapsto> PyInt 3, ''rating'' \<mapsto> PyInt 4]]))
   \<and> (\<exists>m n. validate 0 ReviewCreate [''booking_id'' \<mapsto> PyInt 7, ''rating'' \<mapsto> PyInt 5] = Inr m
          \<and> insert_row Review
              [[''booking_id'' \<mapsto> PyInt 7, ''reviewer_id'' \<mapsto> PyInt 3, ''rating'' \<mapsto> PyInt 4]]
              (new_row 0 Review ([''reviewer_id'' \<mapsto> PyInt 9] ++ map_of (fields_values m)))
            = (Some (IntegrityError n),
               [[''booking_id'' \<mapsto> PyInt 7, ''reviewer_id'' \<mapsto> PyInt 3, ''rating'' \<mapsto> PyInt 4]]))
   \<and> distinct (column ''booking_id''
        (snd (insert_row Review
           [[''booking_id'' \<mapsto> PyInt 7, ''reviewer_id'' \<mapsto> PyInt 3, ''rating'' \<mapsto> PyInt 4]]
           [''booking_id'' \<mapsto> PyInt 8, ''reviewer_id'' \<mapsto> PyInt 9, ''rating'' \<mapsto> PyInt 5])))"
proof -
  let ?row = "[''booking_id'' \<mapsto> PyInt 7, ''reviewer_id'' \<mapsto> PyInt 3, ''rating'' \<mapsto> PyInt 4]"
  let ?new = "[''booking_id'' \<mapsto> PyInt 7, ''reviewer_id'' \<mapsto> PyInt 9, ''rating'' \<mapsto> PyInt 5]"
  let ?new8 = "[''booking_id'' \<mapsto> PyInt 8, ''reviewer_id'' \<mapsto> PyInt 9, ''rating'' \<mapsto> PyInt 5]"
  let ?srv = "[''reviewer_id'' \<mapsto> PyInt 9]"
  let ?kw = "[''booking_id'' \<mapsto> PyInt 7, ''rating'' \<mapsto> PyInt 5]"
  have "field_errors 0 ReviewCreate ?kw = []"
    by (simp add: ReviewCreate_def FieldInfo_def Optional_def validate_field_def get_default_def
        check_int_def)
  then obtain m where m: "validate 0 ReviewCreate ?kw = Inr m"
    using validate_succeeds_iff [of 0 ReviewCreate ?kw] by blast
  have d: "distinct (column ''booking_id'' [?row])" by simp
  from Review_unique_booking [where r' = ?row and rows = "[?row]" and b = 7 and r = ?new
      and kw = ?kw and now = 0 and m = m and server = ?srv] m
  have a: "\<exists>n. insert_row Review [?row] ?new = (Some (IntegrityError n), [?row])"
    and b: "\<exists>n. insert_row Review [?row] (new_row 0 Review (?srv ++ map_of (fields_values m)))
                  = (Some (IntegrityError n), [?row])"
    by simp_all
  from Review_unique_booking [where r' = ?row and rows = "[?row]" and b = 7 and r = ?new8
      and kw = ?kw and now = 0 and m = m and server = ?srv] d
  have c: "distinct (column ''booking_id'' (snd (insert_row Review [?row] ?new8)))"
    by blast
  from a b c m show ?thesis by blast
qed

subsection \<open>One provider profile per user\<close>

lemma ProviderProfile_user_id:
  "(FieldInfo ''user_id'' T_int)\<lparr>foreign_key := Some ''users.id'', unique := True\<rparr>
     \<in> set ProviderProfile"
  by (simp add: ProviderProfile_def)

text \<open>
  C5. \<^verbatim>\<open>ProviderProfile.user_id\<close> is declared \<^verbatim>\<open>unique=True\<close>. When a profile of user \<open>u\<close> is
  stored, the insertion of another profile of user \<open>u\<close> is refused with an integrity
  error and the stored profiles stay as they were. A refused insertion changes nothing,
  and an insertion, refused or not, keeps the property that no two stored profiles have
  the same user.
\<close>

theorem ProviderProfile_unique_user:
  "(r' \<in> set rows \<and> r' ''user_id'' = Some (PyInt u) \<and> r ''user_id'' = Some (PyInt u) \<longrightarrow>
      (\<exists>n. insert_row ProviderProfile rows r = (Some (IntegrityError n), rows)))
   \<and> (fst (insert_row ProviderProfile rows r) \<noteq> None \<longrightarrow>
        snd (insert_row ProviderProfile rows r) = rows)
   \<and> (distinct (column ''user_id'' rows) \<longrightarrow>
        distinct (column ''user_id'' (snd (insert_row ProviderProfile rows r))))"
proof -
  have conflict: "\<exists>n. insert_row ProviderProfile rows r = (Some (IntegrityError n), rows)"
    if "r' \<in> set rows" and "r' ''user_id'' = Some (PyInt u)"
      and "r ''user_id'' = Some (PyInt u)"
    using insert_row_conflict [OF ProviderProfile_user_id, of r "PyInt u" r' rows] that
    by (simp add: FieldInfo_def)
  have inv: "distinct (column ''user_id'' (snd (insert_row ProviderProfile rows r)))"
    if "distinct (column ''user_id'' rows)"
    using insert_row_distinct [OF ProviderProfile_user_id, of rows r] that
    by (simp add: FieldInfo_def)
  from conflict inv insert_row_refused [of ProviderProfile rows r] show ?thesis by blast
qed

theorem ProviderProfile_unique_user_witness:
  "(\<exists>n. insert_row ProviderProfile
           [[''user_id'' \<mapsto> PyInt 1, ''business_name'' \<mapsto> PyStr ''Al Amin'']]
           [''user_id'' \<mapsto> PyInt 1, ''business_name'' \<mapsto> PyStr ''An Nur'']
         = (Some (IntegrityError n),
            [[''user_id'' \<mapsto> PyInt 1, ''business_name'' \<mapsto> PyStr ''Al Amin'']]))
   \<and> distinct (column ''user_id''
        (snd (insert_row ProviderProfile
           [[''user_id'' \<mapsto> PyInt 1, ''business_name'' \<mapsto> PyStr ''Al Amin'']]
           [''user_id'' \<mapsto> PyInt 2, ''business_name'' \<mapsto> PyStr ''An Nur''])))"
proof -
  let ?row = "[''user_id'' \<mapsto> PyInt 1, ''business_name'' \<mapsto> PyStr ''Al Amin'']"
  let ?new = "[''user_id'' \<mapsto> PyInt 1, ''business_name'' \<mapsto> PyStr ''An Nur'']"
  let ?new2 = "[''user_id'' \<mapsto> PyInt 2, ''business_name'' \<mapsto> PyStr ''An Nur'']"
  have d: "distinct (column ''user_id'' [?row])" by simp
  from ProviderProfile_unique_user [where r' = ?row and rows = "[?row]" and u = 1 and r = ?new]
  have a: "\<exists>n. insert_row ProviderProfile [?row] ?new = (Some (IntegrityError n), [?row])"
    by simp
  from ProviderProfile_unique_user [where r' = ?row and rows = "[?row]" and u = 1 and r = ?new2] d
  have b: "distinct (column ''user_id'' (snd (insert_row ProviderProfile [?row] ?new2)))"
    by blast
  from a b show ?thesis by blast
qed

end
